theory Spec2Isabelle
  imports Main
begin

section \<open>Python values, exceptions and localized messages\<close>

text \<open>
  The module handles JSON-like data typed \<open>Any\<close> in the source: the stored secret, the
  stored error of a credential and the decoded file selection. \<open>pyval\<close> is that data,
  floating-point numbers left out; a nested \<open>dict\<close> keeps its items in insertion
  order.
\<close>

datatype pyval =
    PNone
  | PBool bool
  | PInt int
  | PStr string
  | PList "pyval list"
  | PDict "(string \<times> pyval) list"

text \<open>Python's truth value of an object, as \<open>if x:\<close> and \<open>not x\<close> test it.\<close>

fun truthy :: "pyval \<Rightarrow> bool" where
  "truthy PNone = False"
| "truthy (PBool b) = b"
| "truthy (PInt i) = (i \<noteq> 0)"
| "truthy (PStr s) = (s \<noteq> [])"
| "truthy (PList xs) = (xs \<noteq> [])"
| "truthy (PDict kv) = (kv \<noteq> [])"

text \<open>
  The exceptions that can leave the module. \<open>Raised\<close> is an exception of a collaborator
  that the module does not catch.
\<close>

datatype exn =
    KeyError string
  | TypeError string
  | RuntimeError string
  | AttributeError string
  | AssertionError
  | Raised string

text \<open>\<open>x[k]\<close> with a string key: only a dict can be subscripted that way.\<close>

fun py_getitem :: "pyval \<Rightarrow> string \<Rightarrow> exn + pyval" where
  "py_getitem (PDict kv) k =
     (case map_of kv k of None \<Rightarrow> Inl (KeyError k) | Some v \<Rightarrow> Inr v)"
| "py_getitem PNone k = Inl (TypeError ''object is not subscriptable'')"
| "py_getitem (PBool b) k = Inl (TypeError ''object is not subscriptable'')"
| "py_getitem (PInt i) k = Inl (TypeError ''object is not subscriptable'')"
| "py_getitem (PStr s) k = Inl (TypeError ''string indices must be integers'')"
| "py_getitem (PList xs) k = Inl (TypeError ''list indices must be integers'')"

text \<open>
  Modelled from the spec: \<open>I18nMessage\<close> is the named tuple of \<open>cjwmodule.i18n\<close>, which is
  not part of this repository. The spec gives its shape,
  \<open>{id: string, arguments: mapping, source: optional-string}\<close>; the fetch tests compare a
  message with the triple \<open>(id, arguments, None)\<close>. A named tuple does not check the
  types of its fields, so they hold any value. The field \<open>id\<close> is named \<open>id_field\<close>
  here.
\<close>

record I18nMessage =
  id_field :: pyval
  arguments :: pyval
  source :: pyval

text \<open>
  Modelled from the spec: \<open>trans(id, default)\<close> of \<open>cjwmodule.i18n\<close> builds the message
  of the module's own catalogue with that id and no arguments (the tests compare it
  with \<open>i18n_message(id)\<close>); the default text is for the translators only.
\<close>

definition trans_i18n :: "string \<Rightarrow> string \<Rightarrow> I18nMessage" where
  "trans_i18n message_id default_text =
     \<lparr>id_field = PStr message_id, arguments = PDict [], source = PStr ''module''\<rparr>"

text \<open>The six messages the module builds with \<open>trans\<close>, under the names of their ids.\<close>

definition noFile :: I18nMessage where
  "noFile = trans_i18n ''error.params.noFile'' ''Please choose a file''"

definition noCredentials :: I18nMessage where
  "noCredentials = trans_i18n ''error.secrets.noCredentials'' ''Please connect to Google Drive.''"

definition status401 :: I18nMessage where
  "status401 = trans_i18n ''error.http.status401''
     ''Invalid credentials. Please reconnect to Google Drive.''"

definition status403 :: I18nMessage where
  "status403 = trans_i18n ''error.http.status403''
     ''You chose a file your logged-in user cannot access. Please reconnect to Google Drive or choose a different file.''"

definition status404 :: I18nMessage where
  "status404 = trans_i18n ''error.http.status404''
     ''File not found. Please choose a different file.''"

definition cannotRemoveHeader :: I18nMessage where
  "cannotRemoveHeader = trans_i18n ''error.parquet.cannotRemoveHeader''
     ''Please re-download this file to disable header-row handling''"

text \<open>
  \<open>I18nMessage(**d)\<close>: the items of \<open>d\<close> become the keyword arguments of the named
  tuple's constructor. \<open>id\<close> is required, \<open>arguments\<close> defaults to \<open>{}\<close> and \<open>source\<close> to
  \<open>None\<close>; any other keyword, and a \<open>d\<close> that is no mapping, is a \<open>TypeError\<close>.
\<close>

definition I18nMessage_kwargs :: "pyval \<Rightarrow> exn + I18nMessage" where
  "I18nMessage_kwargs d =
     (case d of
        PDict kv \<Rightarrow>
          if \<not> list_all (\<lambda>k. k \<in> set [''id'', ''arguments'', ''source'']) (map fst kv)
          then Inl (TypeError ''unexpected keyword argument'')
          else (case map_of kv ''id'' of
                  None \<Rightarrow> Inl (TypeError ''missing required argument id'')
                | Some i \<Rightarrow>
                    Inr \<lparr>id_field = i,
                         arguments = (case map_of kv ''arguments'' of None \<Rightarrow> PDict [] | Some a \<Rightarrow> a),
                         source = (case map_of kv ''source'' of None \<Rightarrow> PNone | Some s \<Rightarrow> s)\<rparr>)
      | _ \<Rightarrow> Inl (TypeError ''argument after ** must be a mapping''))"

section \<open>Results, files and collaborators\<close>

type_synonym filepath = string
type_synonym bytes = string
type_synonym headers = "(string \<times> string) list"

record RenderError =
  message :: I18nMessage
  quick_fixes :: "unit list"

record FetchResult =
  path :: "filepath option"
  errors :: "RenderError list"

text \<open>
  The world the module acts on: the content of every file the host supplies (every
  path the module is handed exists), and the HTTP requests issued so far, oldest first.
\<close>

record world =
  files :: "filepath \<Rightarrow> bytes"
  requests :: "(string \<times> headers) list"

text \<open>What \<open>httpfile.download\<close> reports: success, or the exception it raises.\<close>

datatype http_outcome =
    Downloaded
  | NotSuccess int I18nMessage
  | HttpErrorOther I18nMessage
  | DownloadRaised exn

text \<open>\<open>oauth2.Client(client_id=None, token_type=..., access_token=...)\<close>.\<close>

record oauth2_Client =
  token_type :: pyval
  access_token :: pyval

text \<open>
  The libraries the module calls are not part of the repository; they are parameters
  of the model.
  \<^item> \<open>add_token client url\<close>: \<open>oauth2.Client.add_token(url, headers={})\<close>, the URL and
    headers to send, or an exception.
  \<^item> \<open>download url headers old\<close>: \<open>httpfile.download\<close>, its outcome and the content it
    leaves in the output file, whose content was \<open>old\<close>.
  \<^item> \<open>file_has_parquet_magic_number content\<close>: the signature sniff of \<open>cjwparquet\<close>.
  \<^item> \<open>convert_parquet_file_to_arrow_file input old\<close>: the conversion of \<open>cjwparquet\<close>, an
    exception or success, and the content it leaves in the output file.
  \<^item> \<open>httpfile_read content\<close>: the headers and body of a stored HTTP capture
    (\<open>None\<close> stands for the path \<open>None\<close>).
  \<^item> \<open>extract_first_header\<close>: \<open>httpfile.extract_first_header\<close>.
  \<^item> \<open>mime_types\<close>: the values of the enumeration \<open>cjwparse.api.MimeType\<close>, in order.
  \<^item> \<open>parse_file body mime_type has_header old\<close>: \<open>cjwparse.api.parse_file\<close>, an exception
    or its messages, and the content it leaves in the output file.
\<close>

record collaborators =
  add_token :: "oauth2_Client \<Rightarrow> string \<Rightarrow> exn + (string \<times> headers)"
  download :: "string \<Rightarrow> headers \<Rightarrow> bytes \<Rightarrow> http_outcome \<times> bytes"
  file_has_parquet_magic_number :: "bytes \<Rightarrow> bool"
  convert_parquet_file_to_arrow_file :: "bytes \<Rightarrow> bytes \<Rightarrow> (exn + unit) \<times> bytes"
  httpfile_read :: "bytes option \<Rightarrow> exn + (headers \<times> bytes)"
  extract_first_header :: "headers \<Rightarrow> string \<Rightarrow> string option"
  mime_types :: "string list"
  parse_file :: "bytes \<Rightarrow> string \<Rightarrow> bool \<Rightarrow> bytes \<Rightarrow> (exn + I18nMessage list) \<times> bytes"

text \<open>
  The current parameters, as \<open>fetch_arrow\<close> and \<open>render\<close> read them. The host passes
  a dict of the module's current schema, so the keys are there: \<open>params["file"]\<close> is an
  \<open>Optional[Dict[str, str]]\<close> (the docstring of \<open>_migrate_params_v0_to_v1\<close>), named
  \<open>file_meta\<close> here as the local variable that holds it, and \<open>params["has_header"]\<close> is
  a bool.
\<close>

record params =
  has_header :: bool
  version_select :: string
  file_meta :: "(string \<rightharpoonup> string) option"

section \<open>Fetch\<close>

definition GDRIVE_API_URL :: string where
  "GDRIVE_API_URL = ''https://www.googleapis.com/drive/v3''"

text \<open>The MIME type of a native Google spreadsheet, the literal of the source.\<close>

definition spreadsheet_mime_type :: string where
  "spreadsheet_mime_type = ''application/vnd.google-apps.spreadsheet''"

definition generate_google_sheet_url :: "string \<Rightarrow> string" where
  "generate_google_sheet_url sheet_id =
     GDRIVE_API_URL @ ''/files/'' @ sheet_id @ ''/export?mimeType=text%2Fcsv''"

definition generate_gdrive_file_url :: "string \<Rightarrow> string" where
  "generate_gdrive_file_url sheet_id =
     GDRIVE_API_URL @ ''/files/'' @ sheet_id @ ''?alt=media''"

text \<open>\<open>os.truncate(output_path, 0)\<close>, then the result with the one error.\<close>

definition fetch_error :: "filepath \<Rightarrow> I18nMessage \<Rightarrow> world \<Rightarrow> FetchResult \<times> world" where
  "fetch_error output_path msg w =
     (\<lparr>path = Some output_path, errors = [\<lparr>message = msg, quick_fixes = []\<rparr>]\<rparr>,
      w\<lparr>files := (files w)(output_path := [])\<rparr>)"

text \<open>
  The first statement of \<open>do_download\<close>: the URL to request and the MIME type the local
  variable \<open>sheet_mime_type\<close> holds afterwards.
\<close>

definition download_target :: "string \<Rightarrow> string \<Rightarrow> string \<times> string" where
  "download_target sheet_id sheet_mime_type =
     (if sheet_mime_type = spreadsheet_mime_type
      then (generate_google_sheet_url sheet_id, ''text/csv'')
      else (generate_gdrive_file_url sheet_id, sheet_mime_type))"

text \<open>
  \<open>do_download\<close>: the request and the two \<open>except\<close> clauses. The request is logged
  when \<open>httpfile.download\<close> has run; an exception that is no \<open>HttpError\<close> propagates.
\<close>

definition do_download ::
  "collaborators \<Rightarrow> string \<Rightarrow> string \<Rightarrow> oauth2_Client \<Rightarrow> filepath \<Rightarrow> world
     \<Rightarrow> (exn + FetchResult) \<times> world" where
  "do_download C sheet_id sheet_mime_type oauth2_client output_path w =
     (case add_token C oauth2_client (fst (download_target sheet_id sheet_mime_type)) of
        Inl e \<Rightarrow> (Inl e, w)
      | Inr (url, hdrs) \<Rightarrow>
          (case download C url hdrs (files w output_path) of
             (outcome, left) \<Rightarrow>
               let w' = w\<lparr>files := (files w)(output_path := left),
                          requests := requests w @ [(url, hdrs)]\<rparr>
               in
                 (case outcome of
                    NotSuccess status_code i18n_message \<Rightarrow>
                      (if status_code = 401 then
                         map_prod Inr id (fetch_error output_path status401 w')
                       else if status_code = 403 then
                         map_prod Inr id (fetch_error output_path status403 w')
                       else if status_code = 404 then
                         map_prod Inr id (fetch_error output_path status404 w')
                       else map_prod Inr id (fetch_error output_path i18n_message w'))
                  | HttpErrorOther i18n_message \<Rightarrow>
                      map_prod Inr id (fetch_error output_path i18n_message w')
                  | DownloadRaised e \<Rightarrow> (Inl e, w')
                  | Downloaded \<Rightarrow> (Inr \<lparr>path = Some output_path, errors = []\<rparr>, w'))))"

text \<open>
  \<open>fetch_arrow(params, secrets, last_fetch_result, input_table_parquet_path,
  output_path)\<close>; the third and fourth arguments are never read. \<open>secrets\<close> maps a name
  to the stored secret, a dict; \<open>not x\<close> holds of \<open>None\<close> and of the empty dict.
\<close>

definition fetch_arrow ::
  "collaborators \<Rightarrow> params \<Rightarrow> (string \<rightharpoonup> (string \<rightharpoonup> pyval)) \<Rightarrow> filepath \<Rightarrow> world
     \<Rightarrow> (exn + FetchResult) \<times> world" where
  "fetch_arrow C ps secrets output_path w =
     (let no_file = map_prod Inr id (fetch_error output_path noFile w);
          no_credentials = map_prod Inr id (fetch_error output_path noCredentials w)
      in
        (case file_meta ps of
           None \<Rightarrow> no_file
         | Some fm \<Rightarrow>
             if fm = Map.empty then no_file
             else
               (case fm ''id'' of
                  None \<Rightarrow> (Inl (KeyError ''id''), w)
                | Some sheet_id \<Rightarrow>
                    if sheet_id = [] then (Inl (RuntimeError ''Missing file.id''), w)
                    else
                      let sheet_mime_type =
                            (case fm ''mimeType'' of
                               None \<Rightarrow> spreadsheet_mime_type
                             | Some m \<Rightarrow> m)
                      in
                        (case secrets ''google_credentials'' of
                           None \<Rightarrow> no_credentials
                         | Some secret \<Rightarrow>
                             if secret = Map.empty then no_credentials
                             else
                               (case secret ''error'' of
                                  Some stored \<Rightarrow>
                                    (case I18nMessage_kwargs stored of
                                       Inl e \<Rightarrow> (Inl e, w)
                                     | Inr msg \<Rightarrow>
                                         map_prod Inr id (fetch_error output_path msg w))
                                | None \<Rightarrow>
                                    (case secret ''secret'' of
                                       None \<Rightarrow> (Inl AssertionError, w)
                                     | Some sv \<Rightarrow>
                                         (case py_getitem sv ''token_type'' of
                                            Inl e \<Rightarrow> (Inl e, w)
                                          | Inr tt \<Rightarrow>
                                              (case py_getitem sv ''access_token'' of
                                                 Inl e \<Rightarrow> (Inl e, w)
                                               | Inr at \<Rightarrow>
                                                   do_download C sheet_id sheet_mime_type
                                                     \<lparr>token_type = tt, access_token = at\<rparr>
                                                     output_path w))))))))"

section \<open>Render\<close>

text \<open>
  \<open>_render_deprecated_parquet\<close>: the conversion runs first, then the header flag is
  read; \<open>errors += [...]\<close> appends the warning.
\<close>

definition render_deprecated_parquet ::
  "collaborators \<Rightarrow> filepath \<Rightarrow> I18nMessage list \<Rightarrow> filepath \<Rightarrow> params \<Rightarrow> world
     \<Rightarrow> (exn + I18nMessage list) \<times> world" where
  "render_deprecated_parquet C input_path errs output_path ps w =
     (case convert_parquet_file_to_arrow_file C (files w input_path) (files w output_path) of
        (Inl e, left) \<Rightarrow> (Inl e, w\<lparr>files := (files w)(output_path := left)\<rparr>)
      | (Inr u, left) \<Rightarrow>
          (Inr (if has_header ps then errs else errs @ [cannotRemoveHeader]),
           w\<lparr>files := (files w)(output_path := left)\<rparr>))"

text \<open>
  \<open>_calculate_mime_type\<close>: the first supported MIME type that is a prefix of the content
  type; none is a \<open>RuntimeError\<close>.
\<close>

fun calculate_mime_type :: "string list \<Rightarrow> string \<Rightarrow> exn + string" where
  "calculate_mime_type [] content_type = Inl (RuntimeError ''Unsupported content_type'')"
| "calculate_mime_type (mime_type # rest) content_type =
     (if take (length mime_type) content_type = mime_type then Inr mime_type
      else calculate_mime_type rest content_type)"

text \<open>
  \<open>_render_file\<close>. A capture without a \<open>Content-Type\<close> header gives \<open>None\<close>, and
  \<open>None.startswith\<close> is an \<open>AttributeError\<close>.
\<close>

definition render_file ::
  "collaborators \<Rightarrow> filepath option \<Rightarrow> params \<Rightarrow> filepath \<Rightarrow> world
     \<Rightarrow> (exn + I18nMessage list) \<times> world" where
  "render_file C p ps output_path w =
     (case httpfile_read C (map_option (files w) p) of
        Inl e \<Rightarrow> (Inl e, w)
      | Inr (hdrs, body) \<Rightarrow>
          (case extract_first_header C hdrs ''Content-Type'' of
             None \<Rightarrow> (Inl (AttributeError ''startswith''), w)
           | Some content_type \<Rightarrow>
               (case calculate_mime_type (mime_types C) content_type of
                  Inl e \<Rightarrow> (Inl e, w)
                | Inr mime_type \<Rightarrow>
                    (case parse_file C body mime_type (has_header ps) (files w output_path) of
                       (r, left) \<Rightarrow> (r, w\<lparr>files := (files w)(output_path := left)\<rparr>)))))"

text \<open>
  \<open>render(arrow_table, params, output_path, *, fetch_result, **kwargs)\<close>; the table and
  the other keyword arguments are never read. In the last branch the \<open>assert\<close> holds,
  since the branch before it took every result with errors.
\<close>

definition render ::
  "collaborators \<Rightarrow> params \<Rightarrow> filepath \<Rightarrow> FetchResult option \<Rightarrow> world
     \<Rightarrow> (exn + I18nMessage list) \<times> world" where
  "render C ps output_path fetch_result w =
     (case fetch_result of
        None \<Rightarrow> (Inr [], w)
      | Some fr \<Rightarrow>
          let later_branches =
                (if errors fr \<noteq> [] then (Inr (map message (errors fr)), w)
                 else render_file C (path fr) ps output_path w)
          in
            (case path fr of
               None \<Rightarrow> later_branches
             | Some p \<Rightarrow>
                 if file_has_parquet_magic_number C (files w p)
                 then render_deprecated_parquet C p (map message (errors fr)) output_path ps w
                 else later_branches))"

section \<open>Parameter migration\<close>

text \<open>
  The stored parameters are a dict of JSON values. \<open>json.loads\<close> is the standard
  library's decoder, a parameter of the model: the value a string decodes to, or the
  exception for a string that is no JSON. It accepts text only.
\<close>

definition migrate_params_v0_to_v1 ::
  "(string \<Rightarrow> exn + pyval) \<Rightarrow> (string \<rightharpoonup> pyval) \<Rightarrow> exn + (string \<rightharpoonup> pyval)" where
  "migrate_params_v0_to_v1 json_loads ps =
     (case ps ''googlefileselect'' of
        None \<Rightarrow> Inl (KeyError ''googlefileselect'')
      | Some g \<Rightarrow>
          (case (if truthy g
                 then (case g of
                         PStr s \<Rightarrow> json_loads s
                       | _ \<Rightarrow> Inl (TypeError ''the JSON object must be str, bytes or bytearray''))
                 else Inr PNone) of
             Inl e \<Rightarrow> Inl e
           | Inr f \<Rightarrow>
               (case ps ''has_header'' of
                  None \<Rightarrow> Inl (KeyError ''has_header'')
                | Some h \<Rightarrow>
                    (case ps ''version_select'' of
                       None \<Rightarrow> Inl (KeyError ''version_select'')
                     | Some v \<Rightarrow>
                         Inr [''has_header'' \<mapsto> h, ''version_select'' \<mapsto> v, ''file'' \<mapsto> f]))))"

definition migrate_params ::
  "(string \<Rightarrow> exn + pyval) \<Rightarrow> (string \<rightharpoonup> pyval) \<Rightarrow> exn + (string \<rightharpoonup> pyval)" where
  "migrate_params json_loads ps =
     (if ''googlefileselect'' \<in> dom ps then migrate_params_v0_to_v1 json_loads ps
      else Inr ps)"

section \<open>Sample data\<close>

text \<open>
  The inputs of the repository's tests, and stand-ins for the libraries in the way the
  tests mock them: an OAuth client that puts the bearer token into the
  \<open>Authorization\<close> header, a server that answers by document and labels every body
  \<open>text/csv\<close>, a signature sniff for \<open>PAR1\<close>, a parser whose table starts with the MIME
  type it was called with, and a decoder that knows one JSON text.
\<close>

definition http_not_success :: "int \<Rightarrow> string \<Rightarrow> I18nMessage" where
  "http_not_success status_code reason =
     \<lparr>id_field = PStr ''http.errors.HttpErrorNotSuccess'',
      arguments = PDict [(''status_code'', PInt status_code), (''reason'', PStr reason)],
      source = PStr ''cjwmodule''\<rparr>"

definition http_timeout :: I18nMessage where
  "http_timeout =
     \<lparr>id_field = PStr ''http.errors.HttpErrorTimeout'', arguments = PDict [],
      source = PStr ''cjwmodule''\<rparr>"

definition mock_add_token :: "oauth2_Client \<Rightarrow> string \<Rightarrow> exn + (string \<times> headers)" where
  "mock_add_token client url =
     (case access_token client of
        PStr t \<Rightarrow> Inr (url, [(''Authorization'', ''Bearer '' @ t)])
      | _ \<Rightarrow> Inl (Raised ''ValueError''))"

definition mock_download :: "string \<Rightarrow> headers \<Rightarrow> bytes \<Rightarrow> http_outcome \<times> bytes" where
  "mock_download url hdrs old =
     (if url = generate_google_sheet_url ''doc401''
      then (NotSuccess 401 (http_not_success 401 ''Unauthorized''), ''partial'')
      else if url = generate_google_sheet_url ''doc403''
      then (NotSuccess 403 (http_not_success 403 ''Forbidden''), ''partial'')
      else if url = generate_google_sheet_url ''doc404''
      then (NotSuccess 404 (http_not_success 404 ''Not Found''), ''partial'')
      else if url = generate_google_sheet_url ''doc429''
      then (NotSuccess 429 (http_not_success 429 ''Too Many Requests''), ''partial'')
      else if url = generate_google_sheet_url ''slow''
      then (HttpErrorOther http_timeout, ''partial'')
      else (Downloaded, ''200 OK A,B''))"

definition mock :: collaborators where
  "mock =
     \<lparr>add_token = mock_add_token,
      download = mock_download,
      file_has_parquet_magic_number = (\<lambda>content. take 4 content = ''PAR1''),
      convert_parquet_file_to_arrow_file = (\<lambda>input old. (Inr (), ''ARROW1'' @ drop 4 input)),
      httpfile_read =
        (\<lambda>content. case content of
                      None \<Rightarrow> Inl (AttributeError ''open'')
                    | Some c \<Rightarrow> Inr ([(''content-type'', ''text/csv'')], c)),
      extract_first_header = (\<lambda>hdrs name. map_of hdrs ''content-type''),
      mime_types = [''text/csv'', ''text/tab-separated-values''],
      parse_file = (\<lambda>body mime_type header old. (Inr [], mime_type @ '' '' @ body))\<rparr>"

definition bearer :: oauth2_Client where
  "bearer = \<lparr>token_type = PStr ''Bearer'', access_token = PStr ''an-access-token''\<rparr>"


definition revoked_error :: "(string \<times> pyval) list" where
  "revoked_error =
     [(''id'', PStr ''py.fetcher.secrets._refresh_oauth2_token.error.general''),
      (''arguments'', PDict [(''status_code'', PInt 400), (''error'', PStr ''invalid_grant''),
                             (''description'', PStr ''Token has been expired or revoked.'')]),
      (''source'', PNone)]"

definition revoked_secret :: "string \<rightharpoonup> pyval" where
  "revoked_secret = [''name'' \<mapsto> PStr ''x'', ''error'' \<mapsto> PDict revoked_error]"

definition sheet_file :: "string \<Rightarrow> string \<rightharpoonup> string" where
  "sheet_file sheet_id =
     [''id'' \<mapsto> sheet_id, ''name'' \<mapsto> ''Police Data'',
      ''url'' \<mapsto> ''http://example.org/police-data'',
      ''mimeType'' \<mapsto> ''application/vnd.google-apps.spreadsheet'']"




definition P :: "(string \<rightharpoonup> string) option \<Rightarrow> bool \<Rightarrow> params" where
  "P f header = \<lparr>has_header = header, version_select = [], file_meta = f\<rparr>"

text \<open>A host that hands over an output file with old content in it.\<close>

definition stale_world :: world where
  "stale_world = \<lparr>files = (\<lambda>p. [])(''out'' := ''stale''), requests = []\<rparr>"

text \<open>A host that hands over an empty output file; \<open>fetched\<close> is a legacy download.\<close>

definition fresh_world :: world where
  "fresh_world = \<lparr>files = (\<lambda>p. [])(''fetched'' := ''PAR1 A,B PAR1''), requests = []\<rparr>"

text \<open>The world after the download of \<open>doc1\<close> as a raw file into \<open>fetched\<close>.\<close>

definition empty_world :: world where
  "empty_world = \<lparr>files = (\<lambda>p. []), requests = []\<rparr>"


definition truncated_table :: RenderError where
  "truncated_table =
     \<lparr>message = \<lparr>id_field = PStr ''truncated table'', arguments = PDict [],
                  source = PStr ''module''\<rparr>,
      quick_fixes = []\<rparr>"

definition failed_fetch :: FetchResult where
  "failed_fetch =
     \<lparr>path = Some ''fetched'',
      errors = [\<lparr>message = \<lparr>id_field = PStr ''x'', arguments = PDict [(''y'', PStr ''z'')],
                            source = PStr ''module''\<rparr>,
                 quick_fixes = []\<rparr>]\<rparr>"

definition legacy_fetch :: FetchResult where
  "legacy_fetch = \<lparr>path = Some ''fetched'', errors = [truncated_table]\<rparr>"

definition selected_json :: string where
  "selected_json = ''{\"id\":\"1AR-sdfsdf\",\"name\":\"Filename\",\"mimeType\":\"text/csv\"}''"

definition selected_file :: pyval where
  "selected_file =
     PDict [(''id'', PStr ''1AR-sdfsdf''), (''name'', PStr ''Filename''),
            (''mimeType'', PStr ''text/csv'')]"

definition mock_json_loads :: "string \<Rightarrow> exn + pyval" where
  "mock_json_loads s =
     (if s = selected_json then Inr selected_file else Inl (Raised ''JSONDecodeError''))"

definition v0_params :: "string \<Rightarrow> string \<rightharpoonup> pyval" where
  "v0_params googlefileselect =
     [''has_header'' \<mapsto> PBool False, ''version_select'' \<mapsto> PStr [],
      ''googlefileselect'' \<mapsto> PStr googlefileselect]"

definition v1_params :: "pyval \<Rightarrow> string \<rightharpoonup> pyval" where
  "v1_params f =
     [''has_header'' \<mapsto> PBool False, ''version_select'' \<mapsto> PStr [], ''file'' \<mapsto> f]"

section \<open>Fetch: the HTTP failures\<close>


text \<open>
  C1. Once the OAuth client has returned the URL and headers and the download has
  failed, with an HTTP status that is no success or with any other \<open>HttpError\<close>, the
  result has exactly one error: \<open>status401\<close>, \<open>status403\<close> or \<open>status404\<close> for these
  three statuses, and the message of the HTTP library itself, unchanged, in every
  other case. Whatever the download left in the output file, the file is empty
  afterwards.
\<close>

theorem do_download_failure:
  assumes tok: "add_token C client (fst (download_target sheet_id mime)) = Inr (url, hdrs)"
    and dl: "download C url hdrs (files w out) = (outcome, left)"
    and fail: "outcome = NotSuccess status_code msg \<or> outcome = HttpErrorOther msg"
  shows "do_download C sheet_id mime client out w =
           (Inr \<lparr>path = Some out,
                 errors = [\<lparr>message =
                              (if outcome = NotSuccess 401 msg then status401
                               else if outcome = NotSuccess 403 msg then status403
                               else if outcome = NotSuccess 404 msg then status404
                               else msg),
                            quick_fixes = []\<rparr>]\<rparr>,
            w\<lparr>files := (files w)(out := []), requests := requests w @ [(url, hdrs)]\<rparr>)"
proof -
  from fail show ?thesis
  proof
    assume "outcome = NotSuccess status_code msg"
    then show ?thesis
      by (simp add: do_download_def tok dl fetch_error_def Let_def)
  next
    assume "outcome = HttpErrorOther msg"
    then show ?thesis
      by (simp add: do_download_def tok dl fetch_error_def Let_def)
  qed
qed

lemma mock_add_token_bearer:
  "add_token mock bearer (fst (download_target sheet_id spreadsheet_mime_type)) =
     Inr (generate_google_sheet_url sheet_id, [(''Authorization'', ''Bearer an-access-token'')])"
  by (simp add: mock_def mock_add_token_def bearer_def download_target_def)

lemma mock_download_answers:
  "download mock (generate_google_sheet_url ''doc401'') hdrs old =
     (NotSuccess 401 (http_not_success 401 ''Unauthorized''), ''partial'')"
  "download mock (generate_google_sheet_url ''doc403'') hdrs old =
     (NotSuccess 403 (http_not_success 403 ''Forbidden''), ''partial'')"
  "download mock (generate_google_sheet_url ''doc404'') hdrs old =
     (NotSuccess 404 (http_not_success 404 ''Not Found''), ''partial'')"
  "download mock (generate_google_sheet_url ''doc429'') hdrs old =
     (NotSuccess 429 (http_not_success 429 ''Too Many Requests''), ''partial'')"
  "download mock (generate_google_sheet_url ''slow'') hdrs old =
     (HttpErrorOther http_timeout, ''partial'')"
  by (simp_all add: mock_def mock_download_def generate_google_sheet_url_def)

theorem do_download_failure_witness:
  "fst (do_download mock ''doc401'' spreadsheet_mime_type bearer ''out'' stale_world) =
     Inr \<lparr>path = Some ''out'', errors = [\<lparr>message = status401, quick_fixes = []\<rparr>]\<rparr>
   \<and> fst (do_download mock ''doc403'' spreadsheet_mime_type bearer ''out'' stale_world) =
     Inr \<lparr>path = Some ''out'', errors = [\<lparr>message = status403, quick_fixes = []\<rparr>]\<rparr>
   \<and> fst (do_download mock ''doc404'' spreadsheet_mime_type bearer ''out'' stale_world) =
     Inr \<lparr>path = Some ''out'', errors = [\<lparr>message = status404, quick_fixes = []\<rparr>]\<rparr>
   \<and> fst (do_download mock ''doc429'' spreadsheet_mime_type bearer ''out'' stale_world) =
     Inr \<lparr>path = Some ''out'',
          errors = [\<lparr>message = http_not_success 429 ''Too Many Requests'',
                     quick_fixes = []\<rparr>]\<rparr>
   \<and> fst (do_download mock ''slow'' spreadsheet_mime_type bearer ''out'' stale_world) =
     Inr \<lparr>path = Some ''out'', errors = [\<lparr>message = http_timeout, quick_fixes = []\<rparr>]\<rparr>
   \<and> files (snd (do_download mock ''doc401'' spreadsheet_mime_type bearer ''out'' stale_world))
       ''out'' = []
   \<and> files (snd (do_download mock ''slow'' spreadsheet_mime_type bearer ''out'' stale_world))
       ''out'' = []"
proof -
  have f: "NotSuccess c m = NotSuccess c m \<or> NotSuccess c m = HttpErrorOther m" for c m
    by simp
  have g: "HttpErrorOther m = NotSuccess 0 m \<or> HttpErrorOther m = HttpErrorOther m" for m
    by simp
  note a = do_download_failure [OF mock_add_token_bearer mock_download_answers(1) f]
    and b = do_download_failure [OF mock_add_token_bearer mock_download_answers(2) f]
    and c = do_download_failure [OF mock_add_token_bearer mock_download_answers(3) f]
    and d = do_download_failure [OF mock_add_token_bearer mock_download_answers(4) f]
    and e = do_download_failure [OF mock_add_token_bearer mock_download_answers(5) g]
  show ?thesis
    by (simp add: a b c d e)
qed

section \<open>Fetch: the URL and the MIME type\<close>






section \<open>Fetch: the checks before the request\<close>

text \<open>
  C5. The checks run in order and the first failure ends the fetch. Without a file
  (\<open>None\<close>, or an empty dict) the result is the one error \<open>noFile\<close> and an empty output
  file, whatever the secrets are. With a file reference (its id not empty) and no
  stored credential (none, or an empty dict) the result is the one error
  \<open>noCredentials\<close> and an empty output file. In both cases nothing else in the world
  changes: no HTTP request is logged.
\<close>

theorem fetch_arrow_first_failure:
  "(file_meta ps = None \<or> file_meta ps = Some Map.empty
      \<longrightarrow> fetch_arrow C ps secrets out w =
           (Inr \<lparr>path = Some out, errors = [\<lparr>message = noFile, quick_fixes = []\<rparr>]\<rparr>,
            w\<lparr>files := (files w)(out := [])\<rparr>))
   \<and> (file_meta ps = Some fm \<and> fm ''id'' = Some sheet_id \<and> sheet_id \<noteq> []
        \<and> (secrets ''google_credentials'' = None
             \<or> secrets ''google_credentials'' = Some Map.empty)
      \<longrightarrow> fetch_arrow C ps secrets out w =
           (Inr \<lparr>path = Some out, errors = [\<lparr>message = noCredentials, quick_fixes = []\<rparr>]\<rparr>,
            w\<lparr>files := (files w)(out := [])\<rparr>))"
proof (intro conjI impI)
  assume "file_meta ps = None \<or> file_meta ps = Some Map.empty"
  then show "fetch_arrow C ps secrets out w =
           (Inr \<lparr>path = Some out, errors = [\<lparr>message = noFile, quick_fixes = []\<rparr>]\<rparr>,
            w\<lparr>files := (files w)(out := [])\<rparr>)"
    by (auto simp: fetch_arrow_def Let_def fetch_error_def)
next
  assume a: "file_meta ps = Some fm \<and> fm ''id'' = Some sheet_id \<and> sheet_id \<noteq> []
        \<and> (secrets ''google_credentials'' = None
             \<or> secrets ''google_credentials'' = Some Map.empty)"
  then have "fm \<noteq> Map.empty" by auto
  with a show "fetch_arrow C ps secrets out w =
           (Inr \<lparr>path = Some out, errors = [\<lparr>message = noCredentials, quick_fixes = []\<rparr>]\<rparr>,
            w\<lparr>files := (files w)(out := [])\<rparr>)"
    by (auto simp: fetch_arrow_def Let_def fetch_error_def)
qed

theorem fetch_arrow_first_failure_witness:
  "fetch_arrow mock (P None True) [''google_credentials'' \<mapsto> revoked_secret] ''out''
       stale_world =
     (Inr \<lparr>path = Some ''out'', errors = [\<lparr>message = noFile, quick_fixes = []\<rparr>]\<rparr>,
      \<lparr>files = (\<lambda>p. []), requests = []\<rparr>)
   \<and> fetch_arrow mock (P (Some (sheet_file ''doc1'')) True) Map.empty ''out'' stale_world =
     (Inr \<lparr>path = Some ''out'', errors = [\<lparr>message = noCredentials, quick_fixes = []\<rparr>]\<rparr>,
      \<lparr>files = (\<lambda>p. []), requests = []\<rparr>)"
proof -
  have w: "stale_world\<lparr>files := (files stale_world)(''out'' := [])\<rparr> =
      \<lparr>files = (\<lambda>p. []), requests = []\<rparr>"
    by (simp add: stale_world_def fun_eq_iff)
  have "file_meta (P None True) = None \<or> file_meta (P None True) = Some Map.empty"
    by (simp add: P_def)
  with fetch_arrow_first_failure
         [where ps = "P None True" and C = mock and out = "''out''" and w = stale_world
            and secrets = "[''google_credentials'' \<mapsto> revoked_secret]"]
  have a: "fetch_arrow mock (P None True) [''google_credentials'' \<mapsto> revoked_secret] ''out''
       stale_world =
     (Inr \<lparr>path = Some ''out'', errors = [\<lparr>message = noFile, quick_fixes = []\<rparr>]\<rparr>,
      stale_world\<lparr>files := (files stale_world)(''out'' := [])\<rparr>)"
    by blast
  have "file_meta (P (Some (sheet_file ''doc1'')) True) = Some (sheet_file ''doc1'')
      \<and> sheet_file ''doc1'' ''id'' = Some ''doc1'' \<and> ''doc1'' \<noteq> []
      \<and> (Map.empty ''google_credentials'' = (None :: (string \<rightharpoonup> pyval) option)
           \<or> Map.empty ''google_credentials'' = Some (Map.empty :: string \<rightharpoonup> pyval))"
    by (simp add: P_def sheet_file_def)
  with fetch_arrow_first_failure
         [where ps = "P (Some (sheet_file ''doc1'')) True" and C = mock and out = "''out''"
            and w = stale_world and secrets = Map.empty and fm = "sheet_file ''doc1''"
            and sheet_id = "''doc1''"]
  have b: "fetch_arrow mock (P (Some (sheet_file ''doc1'')) True) Map.empty ''out'' stale_world =
     (Inr \<lparr>path = Some ''out'', errors = [\<lparr>message = noCredentials, quick_fixes = []\<rparr>]\<rparr>,
      stale_world\<lparr>files := (files stale_world)(''out'' := [])\<rparr>)"
    by blast
  show ?thesis
    unfolding a b w by simp
qed

text \<open>
  C6. With a file reference (its id not empty) and a stored credential that holds an
  \<open>error\<close>, a message with its \<open>id\<close>, \<open>arguments\<close> and \<open>source\<close>, the result is exactly
  one error whose message has that id, those arguments and that source; the output
  file is empty, and nothing else in the world changes: no HTTP request is logged.
\<close>

theorem fetch_arrow_stored_error:
  assumes "file_meta ps = Some fm" and "fm ''id'' = Some sheet_id" and "sheet_id \<noteq> []"
    and "secrets ''google_credentials'' = Some secret"
    and "secret ''error'' = Some (PDict kv)"
    and "fst ` set kv \<subseteq> {''id'', ''arguments'', ''source''}"
    and "map_of kv ''id'' = Some i" and "map_of kv ''arguments'' = Some a"
    and "map_of kv ''source'' = Some s"
  shows "fetch_arrow C ps secrets out w =
           (Inr \<lparr>path = Some out,
                 errors = [\<lparr>message = \<lparr>id_field = i, arguments = a, source = s\<rparr>,
                            quick_fixes = []\<rparr>]\<rparr>,
            w\<lparr>files := (files w)(out := [])\<rparr>)"
proof -
  from assms(2) have "fm \<noteq> Map.empty" by auto
  moreover from assms(5) have "secret \<noteq> Map.empty" by auto
  moreover from assms(6) have
    "list_all (\<lambda>k. k \<in> set [''id'', ''arguments'', ''source'']) (map fst kv)"
    by (auto simp: list_all_iff)
  then have "I18nMessage_kwargs (PDict kv) = Inr \<lparr>id_field = i, arguments = a, source = s\<rparr>"
    using assms(7-9) by (simp add: I18nMessage_kwargs_def)
  ultimately show ?thesis
    using assms(1-5) by (simp add: fetch_arrow_def Let_def fetch_error_def)
qed

theorem fetch_arrow_stored_error_witness:
  "fetch_arrow mock (P (Some (sheet_file ''doc1'')) True)
       [''google_credentials'' \<mapsto> revoked_secret] ''out'' stale_world =
     (Inr \<lparr>path = Some ''out'',
           errors =
             [\<lparr>message =
                 \<lparr>id_field = PStr ''py.fetcher.secrets._refresh_oauth2_token.error.general'',
                  arguments =
                    PDict [(''status_code'', PInt 400), (''error'', PStr ''invalid_grant''),
                           (''description'', PStr ''Token has been expired or revoked.'')],
                  source = PNone\<rparr>,
               quick_fixes = []\<rparr>]\<rparr>,
      \<lparr>files = (\<lambda>p. []), requests = []\<rparr>)"
proof -
  have w: "stale_world\<lparr>files := (files stale_world)(''out'' := [])\<rparr> =
      \<lparr>files = (\<lambda>p. []), requests = []\<rparr>"
    by (simp add: stale_world_def fun_eq_iff)
  have h: "file_meta (P (Some (sheet_file ''doc1'')) True) = Some (sheet_file ''doc1'')"
    "sheet_file ''doc1'' ''id'' = Some ''doc1''" "''doc1'' \<noteq> []"
    "[''google_credentials'' \<mapsto> revoked_secret] ''google_credentials'' = Some revoked_secret"
    "revoked_secret ''error'' = Some (PDict revoked_error)"
    "fst ` set revoked_error \<subseteq> {''id'', ''arguments'', ''source''}"
    "map_of revoked_error ''id'' =
       Some (PStr ''py.fetcher.secrets._refresh_oauth2_token.error.general'')"
    "map_of revoked_error ''arguments'' =
       Some (PDict [(''status_code'', PInt 400), (''error'', PStr ''invalid_grant''),
                    (''description'', PStr ''Token has been expired or revoked.'')])"
    "map_of revoked_error ''source'' = Some PNone"
    by (simp_all add: P_def sheet_file_def revoked_secret_def revoked_error_def)
  show ?thesis
    using fetch_arrow_stored_error
            [where ps = "P (Some (sheet_file ''doc1'')) True" and fm = "sheet_file ''doc1''"
               and secrets = "[''google_credentials'' \<mapsto> revoked_secret]"
               and secret = revoked_secret and kv = revoked_error and C = mock
               and out = "''out''" and w = stale_world, OF h]
    unfolding w by simp
qed

section \<open>Fetch: the fields that are never read\<close>




section \<open>Render\<close>

text \<open>
  C3. When the fetched file has the legacy signature and its conversion succeeds,
  render leaves the converted table in the output file and returns the messages
  stored in the fetch result, in their order; with \<open>has_header\<close> false the one warning
  \<open>cannotRemoveHeader\<close> follows them. The world after the call, the output table
  included, is the one of the call with \<open>has_header\<close> true.
\<close>

theorem render_deprecated_parquet_result:
  assumes "path fr = Some p"
    and "file_has_parquet_magic_number C (files w p)"
    and "convert_parquet_file_to_arrow_file C (files w p) (files w out) = (Inr u, table)"
  shows "render C ps out (Some fr) w =
           (Inr (map message (errors fr) @ (if has_header ps then [] else [cannotRemoveHeader])),
            w\<lparr>files := (files w)(out := table)\<rparr>)
         \<and> snd (render C ps out (Some fr) w) =
             snd (render C (ps\<lparr>has_header := True\<rparr>) out (Some fr) w)"
  using assms by (simp add: render_def render_deprecated_parquet_def Let_def)

theorem render_deprecated_parquet_result_witness:
  "render mock (P (Some (sheet_file ''doc1'')) False) ''out'' (Some legacy_fetch) fresh_world =
     (Inr [message truncated_table, cannotRemoveHeader],
      fresh_world\<lparr>files := (files fresh_world)(''out'' := ''ARROW1 A,B PAR1'')\<rparr>)
   \<and> render mock (P (Some (sheet_file ''doc1'')) True) ''out'' (Some legacy_fetch) fresh_world =
     (Inr [message truncated_table],
      fresh_world\<lparr>files := (files fresh_world)(''out'' := ''ARROW1 A,B PAR1'')\<rparr>)"
proof -
  have h: "path legacy_fetch = Some ''fetched''"
    "file_has_parquet_magic_number mock (files fresh_world ''fetched'')"
    "convert_parquet_file_to_arrow_file mock (files fresh_world ''fetched'')
       (files fresh_world ''out'') = (Inr (), ''ARROW1 A,B PAR1'')"
    by (simp_all add: legacy_fetch_def mock_def fresh_world_def)
  note a = render_deprecated_parquet_result
      [OF h, where ps = "P (Some (sheet_file ''doc1'')) False", THEN conjunct1]
    and b = render_deprecated_parquet_result
      [OF h, where ps = "P (Some (sheet_file ''doc1'')) True", THEN conjunct1]
  show ?thesis
    unfolding a b by (simp add: P_def legacy_fetch_def)
qed

text \<open>
  C4, as the code has it. Render without a fetch result returns no errors, and render
  of a fetch result with errors and no legacy signature returns the stored messages,
  in their order. In both cases render leaves the output file as it was before the
  call, so the table there is empty exactly when the host handed over an empty file.
\<close>

theorem render_without_data:
  "fst (render C ps out None w) = Inr []
   \<and> files (snd (render C ps out None w)) out = files w out
   \<and> (errors fr \<noteq> []
        \<and> (\<forall>p. path fr = Some p \<longrightarrow> \<not> file_has_parquet_magic_number C (files w p))
      \<longrightarrow> fst (render C ps out (Some fr) w) = Inr (map message (errors fr))
          \<and> files (snd (render C ps out (Some fr) w)) out = files w out)"
  by (simp add: render_def Let_def split: option.splits)

theorem render_without_data_witness:
  "fst (render mock (P None True) ''out'' None empty_world) = Inr []
   \<and> files (snd (render mock (P None True) ''out'' None empty_world)) ''out'' = []
   \<and> fst (render mock (P None True) ''out'' (Some failed_fetch) empty_world) =
       Inr [\<lparr>id_field = PStr ''x'', arguments = PDict [(''y'', PStr ''z'')],
             source = PStr ''module''\<rparr>]
   \<and> files (snd (render mock (P None True) ''out'' (Some failed_fetch) empty_world)) ''out'' = []
   \<and> files (snd (render mock (P None True) ''out'' (Some failed_fetch) stale_world)) ''out'' =
       ''stale''"
proof -
  have h: "errors failed_fetch \<noteq> []
      \<and> (\<forall>p. path failed_fetch = Some p \<longrightarrow>
            \<not> file_has_parquet_magic_number mock (files w p))"
    if "w = empty_world \<or> w = stale_world" for w
    using that by (auto simp: failed_fetch_def mock_def empty_world_def stale_world_def)
  have e: "files empty_world ''out'' = []" "files stale_world ''out'' = ''stale''"
    by (simp_all add: empty_world_def stale_world_def)
  have m: "map message (errors failed_fetch) =
      [\<lparr>id_field = PStr ''x'', arguments = PDict [(''y'', PStr ''z'')], source = PStr ''module''\<rparr>]"
    by (simp add: failed_fetch_def)
  note a = render_without_data
      [where C = mock and ps = "P None True" and out = "''out''" and w = empty_world
         and fr = failed_fetch]
    and b = render_without_data
      [where C = mock and ps = "P None True" and out = "''out''" and w = stale_world
         and fr = failed_fetch]
  show ?thesis
    using a b h [of empty_world] h [of stale_world]
    unfolding m e by blast
qed

text \<open>
  The claim C4 as the spec has it fails: handed an output file with old content,
  render without a fetch result, and render of a fetch result with errors, leave the
  old content there, which is no empty table.
\<close>

theorem render_without_data_counterexample:
  "files (snd (render mock (P None True) ''out'' None stale_world)) ''out'' = ''stale''
   \<and> files (snd (render mock (P None True) ''out'' (Some failed_fetch) stale_world)) ''out'' =
       ''stale''
   \<and> ''stale'' \<noteq> ([] :: bytes)"
  by (simp add: render_def Let_def stale_world_def failed_fetch_def mock_def)

text \<open>
  C10. Render without a fetch result, and render of a fetch result with errors and no
  legacy signature, leave the world as it was: no file is written or truncated, the
  output file included.
\<close>

theorem render_frame:
  "snd (render C ps out None w) = w
   \<and> (errors fr \<noteq> []
        \<and> (\<forall>p. path fr = Some p \<longrightarrow> \<not> file_has_parquet_magic_number C (files w p))
      \<longrightarrow> snd (render C ps out (Some fr) w) = w)"
  by (simp add: render_def Let_def split: option.splits)

theorem render_frame_witness:
  "snd (render mock (P None True) ''out'' None stale_world) = stale_world
   \<and> snd (render mock (P None True) ''out'' (Some failed_fetch) stale_world) = stale_world
   \<and> files stale_world ''out'' = ''stale''"
proof -
  have h: "errors failed_fetch \<noteq> []
      \<and> (\<forall>p. path failed_fetch = Some p \<longrightarrow>
            \<not> file_has_parquet_magic_number mock (files stale_world p))"
    by (simp add: failed_fetch_def mock_def stale_world_def)
  have e: "files stale_world ''out'' = ''stale''"
    by (simp add: stale_world_def)
  show ?thesis
    using render_frame
            [where C = mock and ps = "P None True" and out = "''out''" and w = stale_world
               and fr = failed_fetch]
          h e
    by blast
qed

section \<open>Parameter migration\<close>

text \<open>
  C7, as the code has it. For legacy parameters, a dict with \<open>googlefileselect\<close> (a
  string), \<open>has_header\<close> and \<open>version_select\<close>, the migration returns the dict of
  exactly three keys: \<open>has_header\<close> and \<open>version_select\<close>, under these names and with the
  values they had, and \<open>file\<close>, which is \<open>None\<close> when the string is empty and the value
  the string decodes to when it is not empty.
\<close>

theorem migrate_params_v0:
  assumes "ps ''googlefileselect'' = Some (PStr s)"
    and "ps ''has_header'' = Some h" and "ps ''version_select'' = Some v"
  shows "(s = [] \<longrightarrow> migrate_params json_loads ps =
            Inr [''has_header'' \<mapsto> h, ''version_select'' \<mapsto> v, ''file'' \<mapsto> PNone])
       \<and> (s \<noteq> [] \<and> json_loads s = Inr decoded \<longrightarrow> migrate_params json_loads ps =
            Inr [''has_header'' \<mapsto> h, ''version_select'' \<mapsto> v, ''file'' \<mapsto> decoded])"
  using assms by (auto simp: migrate_params_def migrate_params_v0_to_v1_def)

theorem migrate_params_v0_witness:
  "migrate_params mock_json_loads (v0_params []) = Inr (v1_params PNone)
   \<and> migrate_params mock_json_loads (v0_params selected_json) = Inr (v1_params selected_file)"
proof -
  have h: "v0_params g ''googlefileselect'' = Some (PStr g)"
    "v0_params g ''has_header'' = Some (PBool False)"
    "v0_params g ''version_select'' = Some (PStr [])" for g
    by (simp_all add: v0_params_def)
  have j: "selected_json \<noteq> [] \<and> mock_json_loads selected_json = Inr selected_file"
    by (simp add: mock_json_loads_def) (simp add: selected_json_def)
  have a: "migrate_params mock_json_loads (v0_params []) =
      Inr [''has_header'' \<mapsto> PBool False, ''version_select'' \<mapsto> PStr [], ''file'' \<mapsto> PNone]"
    using migrate_params_v0
            [where ps = "v0_params []" and s = "[]" and json_loads = mock_json_loads, OF h]
    by blast
  have b: "migrate_params mock_json_loads (v0_params selected_json) =
      Inr [''has_header'' \<mapsto> PBool False, ''version_select'' \<mapsto> PStr [],
           ''file'' \<mapsto> selected_file]"
    using migrate_params_v0
            [where ps = "v0_params selected_json" and s = selected_json
               and json_loads = mock_json_loads and decoded = selected_file, OF h]
          j
    by blast
  show ?thesis
    unfolding a b by (simp add: v1_params_def)
qed

text \<open>
  The claim C7 as the spec has it fails in the names of the keys: the migrated dict
  has no key \<open>hasHeader\<close> and no key \<open>versionSelect\<close>; the flag and the version are under
  \<open>has_header\<close> and \<open>version_select\<close>, as they were before the migration.
\<close>

theorem migrate_params_v0_counterexample:
  "migrate_params mock_json_loads (v0_params []) = Inr (v1_params PNone)
   \<and> v1_params PNone ''hasHeader'' = None
   \<and> v1_params PNone ''versionSelect'' = None
   \<and> v1_params PNone ''has_header'' = Some (PBool False)
   \<and> v1_params PNone ''version_select'' = Some (PStr [])"
  by (simp add: migrate_params_def migrate_params_v0_to_v1_def v0_params_def v1_params_def)

lemma migrate_params_v0_to_v1_keys:
  "migrate_params_v0_to_v1 json_loads ps = Inr q \<Longrightarrow> q ''googlefileselect'' = None"
  by (auto simp: migrate_params_v0_to_v1_def split: option.splits sum.splits if_splits)

text \<open>
  C8. Migrating the result of a migration gives that result again, and a migration
  that raises raises the same when its result is fed to a second one; parameters
  without the key \<open>googlefileselect\<close> come back unchanged.
\<close>

theorem migrate_params_idempotent:
  "(case migrate_params json_loads ps of
      Inl e \<Rightarrow> Inl e
    | Inr q \<Rightarrow> migrate_params json_loads q) = migrate_params json_loads ps
   \<and> (''googlefileselect'' \<notin> dom ps \<longrightarrow> migrate_params json_loads ps = Inr ps)"
proof
  show "(case migrate_params json_loads ps of
      Inl e \<Rightarrow> Inl e
    | Inr q \<Rightarrow> migrate_params json_loads q) = migrate_params json_loads ps"
  proof (cases "migrate_params json_loads ps")
    case (Inl e)
    then show ?thesis by simp
  next
    case (Inr q)
    have "q ''googlefileselect'' = None"
    proof (cases "''googlefileselect'' \<in> dom ps")
      case True
      with Inr show ?thesis
        by (simp add: migrate_params_def migrate_params_v0_to_v1_keys)
    next
      case False
      with Inr show ?thesis by (auto simp: migrate_params_def)
    qed
    then have "migrate_params json_loads q = Inr q"
      by (simp add: migrate_params_def dom_def)
    with Inr show ?thesis by simp
  qed
next
  show "''googlefileselect'' \<notin> dom ps \<longrightarrow> migrate_params json_loads ps = Inr ps"
    by (simp add: migrate_params_def)
qed

theorem migrate_params_idempotent_witness:
  "migrate_params mock_json_loads (v1_params selected_file) = Inr (v1_params selected_file)
   \<and> ''googlefileselect'' \<notin> dom (v1_params selected_file)"
proof -
  have "''googlefileselect'' \<notin> dom (v1_params selected_file)"
    by (simp add: v1_params_def)
  then show ?thesis
    using migrate_params_idempotent [of mock_json_loads "v1_params selected_file"] by blast
qed

end
